theory Spec2Isabelle
  imports Complex_Main
begin

section \<open>The stream-power incision routine of \<^verbatim>\<open>SPLM.ipynb\<close>\<close>

text \<open>
  The notebook defines one routine, \<^verbatim>\<open>stream_power_erosion\<close> (twice, with the same text):

  \<^verbatim>\<open>
  def stream_power_erosion(z,dx,A,total_time,dt =50, U = 1e-3,K =1e-4, m = 0.5, n = 1 ):
    v = -K*A**m
    dt_stable = int(0.95*dx/max(abs(v)))
    if dt>dt_stable:
      print(...)          # three lines, the middle one formats dt_stable
      dt = dt_stable
    nt_iterations = int(total_time/dt)
    for t in range(nt_iterations):
      z[:-1] += v[1:]*dt*(abs(z[1:]-z[:-1])/dx)**n
      z[:-1] += U *dt
    return z
  \<close>

  \<open>z\<close> and \<open>A\<close> are one-dimensional numpy arrays of floats, the other arguments are Python
  scalars. Arithmetic is modelled on the reals: rounding is not modelled, and a numpy
  operation whose float result would be infinite or NaN (other than the quotient inside
  \<^verbatim>\<open>int(...)\<close>, whose conversion raises) makes the model stop with the outcome
  \<open>NonFinite\<close> instead of following numpy further. Every exception that Python raises on
  finite values is a value of the model.
\<close>

subsection \<open>Outcomes\<close>

datatype py_error = ValueError | OverflowError | ZeroDivisionError

text \<open>The value of one array expression or statement.\<close>

datatype 'a comp = Ok 'a | Raise py_error | NotFinite

text \<open>
  What the caller observes: the returned array, or the exception together with the contents
  of the caller's array \<open>z\<close> at the moment it is raised (the routine writes to \<open>z\<close> in place).
\<close>

datatype outcome = Returned "real list" | Raised py_error "real list" | NonFinite

text \<open>The three \<^verbatim>\<open>print\<close> calls of the stability branch, as one event carrying \<open>dt_stable\<close>.\<close>

datatype diagnostic = StabilityWarning int

fun final_profile :: "outcome \<Rightarrow> real list option" where
  "final_profile (Returned z) = Some z"
| "final_profile (Raised e z) = Some z"
| "final_profile NonFinite = None"

subsection \<open>Scalar operations\<close>

text \<open>
  Python's \<^verbatim>\<open>int(x)\<close> on a finite float truncates towards zero.
\<close>

definition py_int :: "real \<Rightarrow> int" where
  "py_int x = (if 0 \<le> x then \<lfloor>x\<rfloor> else \<lceil>x\<rceil>)"

text \<open>
  \<^verbatim>\<open>x ** y\<close> on floats: \<open>pow_finite\<close> says when the result is a finite number
  (\<^verbatim>\<open>0.0 ** y\<close> is infinite for negative \<open>y\<close>, a negative base with a fractional exponent
  gives NaN) and \<open>np_power\<close> is the result in that case.
\<close>

definition pow_finite :: "real \<Rightarrow> real \<Rightarrow> bool" where
  "pow_finite x y = (y = 0 \<or> 0 < x \<or> (x = 0 \<and> 0 < y) \<or> (x < 0 \<and> y = of_int \<lfloor>y\<rfloor>))"

definition np_power :: "real \<Rightarrow> real \<Rightarrow> real" where
  "np_power x y =
     (if y = 0 then 1
      else if x = 0 then 0
      else if 0 < x then x powr y
      else x powi \<lfloor>y\<rfloor>)"

subsection \<open>Array expressions\<close>

text \<open>\<^verbatim>\<open>v = -K*A**m\<close>, elementwise.\<close>

definition velocity :: "real \<Rightarrow> real list \<Rightarrow> real \<Rightarrow> real list comp" where
  "velocity K A m =
     (if list_all (\<lambda>a. pow_finite a m) A
      then Ok (map (\<lambda>a. - K * np_power a m) A)
      else NotFinite)"

text \<open>
  Python's builtin \<^verbatim>\<open>max\<close> over \<^verbatim>\<open>abs(v)\<close>: it raises \<open>ValueError\<close> on an empty
  sequence.
\<close>

definition max_abs :: "real list \<Rightarrow> py_error + real" where
  "max_abs v = (case v of [] \<Rightarrow> Inl ValueError | x # xs \<Rightarrow> Inr (fold max (map abs xs) \<bar>x\<bar>))"

text \<open>
  \<^verbatim>\<open>dt_stable = int(0.95*dx/max(abs(v)))\<close>. The divisor is a numpy scalar, so a zero divisor
  does not raise at the division: the quotient is infinite (NaN when \<open>0.95*dx\<close> is zero as
  well) and \<^verbatim>\<open>int\<close> raises \<open>OverflowError\<close> (\<open>ValueError\<close> for NaN).
\<close>

definition stable_timestep :: "real \<Rightarrow> real list \<Rightarrow> py_error + int" where
  "stable_timestep dx v =
     (case max_abs v of
        Inl e \<Rightarrow> Inl e
      | Inr vmax \<Rightarrow>
          if vmax = 0 then (if 95 / 100 * dx = 0 then Inl ValueError else Inl OverflowError)
          else Inr (py_int (95 / 100 * dx / vmax)))"

text \<open>
  The \<^verbatim>\<open>if dt>dt_stable:\<close> branch: the timestep used from here on, and what is printed.
\<close>

definition check_timestep :: "real \<Rightarrow> int \<Rightarrow> real \<times> diagnostic list" where
  "check_timestep dt dt_stable =
     (if dt > of_int dt_stable then (of_int dt_stable, [StabilityWarning dt_stable])
      else (dt, []))"

text \<open>
  \<^verbatim>\<open>nt_iterations = int(total_time/dt)\<close>: both operands are Python scalars, so a zero
  \<open>dt\<close> raises \<open>ZeroDivisionError\<close>.
\<close>

definition nt_iterations :: "real \<Rightarrow> real \<Rightarrow> py_error + int" where
  "nt_iterations total_time dt =
     (if dt = 0 then Inl ZeroDivisionError else Inr (py_int (total_time / dt)))"

text \<open>
  \<^verbatim>\<open>(abs(z[1:]-z[:-1])/dx)**n\<close>: the two slices have the same length; a zero \<open>dx\<close> gives
  infinite or NaN quotients as soon as there is an element.
\<close>

definition slope_term :: "real list \<Rightarrow> real \<Rightarrow> real \<Rightarrow> real list comp" where
  "slope_term z dx n =
     (let d = map2 (\<lambda>a b. \<bar>a - b\<bar>) (tl z) (butlast z) in
      if d \<noteq> [] \<and> dx = 0 then NotFinite
      else if list_all (\<lambda>x. pow_finite (x / dx) n) d
      then Ok (map (\<lambda>x. np_power (x / dx) n) d)
      else NotFinite)"

text \<open>
  numpy's broadcasting of two one-dimensional operands: equal lengths combine elementwise,
  an operand of length 1 is stretched, any other pair of lengths raises \<open>ValueError\<close>.
\<close>

definition broadcast_mult :: "real list \<Rightarrow> real list \<Rightarrow> py_error + real list" where
  "broadcast_mult xs ys =
     (if length xs = length ys then Inr (map2 (*) xs ys)
      else if length xs = 1 then Inr (map (\<lambda>y. hd xs * y) ys)
      else if length ys = 1 then Inr (map (\<lambda>x. x * hd ys) xs)
      else Inl ValueError)"

text \<open>
  \<^verbatim>\<open>z[:-1] += rhs\<close>: the right-hand side has been computed into a fresh array; it must
  broadcast to the shape of the target slice, which cannot grow. The last element of \<open>z\<close>
  is not part of the slice.
\<close>

definition iadd_upstream :: "real list \<Rightarrow> real list \<Rightarrow> py_error + real list" where
  "iadd_upstream z rhs =
     (if length rhs = length (butlast z)
      then Inr (map2 (+) (butlast z) rhs @ drop (length z - 1) z)
      else if length rhs = 1
      then Inr (map (\<lambda>x. x + hd rhs) (butlast z) @ drop (length z - 1) z)
      else Inl ValueError)"

text \<open>\<^verbatim>\<open>z[:-1] += c\<close> for a scalar \<open>c\<close>.\<close>

definition iadd_upstream_scalar :: "real list \<Rightarrow> real \<Rightarrow> real list" where
  "iadd_upstream_scalar z c = map (\<lambda>x. x + c) (butlast z) @ drop (length z - 1) z"

subsection \<open>One integration step and the loop\<close>

text \<open>
  The right-hand side \<^verbatim>\<open>v[1:]*dt*(abs(z[1:]-z[:-1])/dx)**n\<close> of the first statement of
  the loop body: the product \<^verbatim>\<open>v[1:]*dt\<close>, the slope term, then their product. It is a
  fresh array, computed from \<open>z\<close> before \<open>z\<close> is written.
\<close>

definition erosion_rhs :: "real list \<Rightarrow> real \<Rightarrow> real \<Rightarrow> real \<Rightarrow> real list \<Rightarrow> real list comp" where
  "erosion_rhs v dx dt n z =
     (case slope_term z dx n of
        NotFinite \<Rightarrow> NotFinite
      | Raise e \<Rightarrow> Raise e
      | Ok s \<Rightarrow>
          (case broadcast_mult (map (\<lambda>x. x * dt) (tl v)) s of
             Inl e \<Rightarrow> Raise e
           | Inr rhs \<Rightarrow> Ok rhs))"

text \<open>
  The body of the \<^verbatim>\<open>for\<close> loop: two in-place additions to \<^verbatim>\<open>z[:-1]\<close>. An exception
  in the first statement leaves \<open>z\<close> as it was before the step; the second statement cannot
  raise.
\<close>

definition step :: "real list \<Rightarrow> real \<Rightarrow> real \<Rightarrow> real \<Rightarrow> real \<Rightarrow> real list \<Rightarrow> real list comp" where
  "step v dx dt U n z =
     (case erosion_rhs v dx dt n z of
        NotFinite \<Rightarrow> NotFinite
      | Raise e \<Rightarrow> Raise e
      | Ok rhs \<Rightarrow>
          (case iadd_upstream z rhs of
             Inl e \<Rightarrow> Raise e
           | Inr z1 \<Rightarrow> Ok (iadd_upstream_scalar z1 (U * dt))))"

text \<open>\<^verbatim>\<open>for t in range(k)\<close> followed by \<^verbatim>\<open>return z\<close>.\<close>

fun erode :: "real list \<Rightarrow> real \<Rightarrow> real \<Rightarrow> real \<Rightarrow> real \<Rightarrow> nat \<Rightarrow> real list \<Rightarrow> outcome" where
  "erode v dx dt U n 0 z = Returned z"
| "erode v dx dt U n (Suc k) z =
     (case step v dx dt U n z of
        Ok z' \<Rightarrow> erode v dx dt U n k z'
      | Raise e \<Rightarrow> Raised e z
      | NotFinite \<Rightarrow> NonFinite)"

subsection \<open>The routine\<close>

text \<open>
  The arguments are in the order of the Python signature. \<^verbatim>\<open>range\<close> of a negative count
  is empty, hence \<open>nat\<close>.
\<close>

definition stream_power_erosion ::
  "real list \<Rightarrow> real \<Rightarrow> real list \<Rightarrow> real \<Rightarrow> real \<Rightarrow> real \<Rightarrow> real \<Rightarrow> real \<Rightarrow> real
     \<Rightarrow> outcome \<times> diagnostic list" where
  "stream_power_erosion z dx A total_time dt U K m n =
     (case velocity K A m of
        NotFinite \<Rightarrow> (NonFinite, [])
      | Raise e \<Rightarrow> (Raised e z, [])
      | Ok v \<Rightarrow>
          (case stable_timestep dx v of
             Inl e \<Rightarrow> (Raised e z, [])
           | Inr dt_stable \<Rightarrow>
               (let (dt', out) = check_timestep dt dt_stable in
                case nt_iterations total_time dt' of
                  Inl e \<Rightarrow> (Raised e z, out)
                | Inr k \<Rightarrow> (erode v dx dt' U n (nat k) z, out))))"

section \<open>Auxiliary facts\<close>

lemma slope_term_cases:
  "slope_term z dx n = NotFinite \<or>
   slope_term z dx n = Ok (map (\<lambda>x. np_power (x / dx) n) (map2 (\<lambda>a b. \<bar>a - b\<bar>) (tl z) (butlast z)))"
  by (simp add: slope_term_def Let_def)

lemma slope_term_length:
  "slope_term z dx n = Ok s \<Longrightarrow> length s = length z - 1"
  using slope_term_cases [of z dx n] by auto

lemma slope_term_nth:
  assumes "slope_term z dx n = Ok s" and "Suc i < length z"
  shows "s ! i = np_power (\<bar>z ! Suc i - z ! i\<bar> / dx) n"
proof -
  have s: "s = map (\<lambda>x. np_power (x / dx) n) (map2 (\<lambda>a b. \<bar>a - b\<bar>) (tl z) (butlast z))"
    using slope_term_cases [of z dx n] assms(1) by auto
  have i: "i < length z - 1" using assms(2) by simp
  show ?thesis using i assms(2)
    by (simp add: s nth_tl nth_butlast)
qed

lemma pow_finite_nonneg: "0 \<le> x \<Longrightarrow> 0 \<le> n \<Longrightarrow> pow_finite x n"
  by (auto simp: pow_finite_def)

lemma slope_term_Ok:
  assumes "0 < dx" and "0 \<le> n"
  shows "\<exists>s. slope_term z dx n = Ok s"
proof -
  have "list_all (\<lambda>x. pow_finite (x / dx) n) (map2 (\<lambda>a b. \<bar>a - b\<bar>) (tl z) (butlast z))"
    using assms by (auto simp: list_all_iff intro!: pow_finite_nonneg dest!: set_zip_leftD)
  then show ?thesis using assms by (simp add: slope_term_def Let_def)
qed

lemma iadd_upstream_length: "iadd_upstream z rhs = Inr z1 \<Longrightarrow> length z1 = length z"
  by (auto simp: iadd_upstream_def split: if_splits)

lemma iadd_upstream_outlet:
  "iadd_upstream z rhs = Inr z1 \<Longrightarrow> drop (length z - 1) z1 = drop (length z - 1) z"
  by (auto simp: iadd_upstream_def split: if_splits)

lemma iadd_upstream_scalar_length [simp]: "length (iadd_upstream_scalar z c) = length z"
  by (simp add: iadd_upstream_scalar_def)

lemma iadd_upstream_scalar_outlet [simp]:
  "drop (length z - 1) (iadd_upstream_scalar z c) = drop (length z - 1) z"
  by (simp add: iadd_upstream_scalar_def)

lemma step_length: "step v dx dt U n z = Ok z' \<Longrightarrow> length z' = length z"
  by (auto simp: step_def split: comp.splits sum.splits dest: iadd_upstream_length)

lemma step_outlet:
  assumes "step v dx dt U n z = Ok z'"
  shows "drop (length z - 1) z' = drop (length z - 1) z"
proof -
  from assms obtain rhs z1 where z1: "iadd_upstream z rhs = Inr z1"
    and z': "z' = iadd_upstream_scalar z1 (U * dt)"
    by (auto simp: step_def split: comp.splits sum.splits)
  have "length z1 = length z" using z1 by (rule iadd_upstream_length)
  then show ?thesis using iadd_upstream_outlet [OF z1] iadd_upstream_scalar_outlet [of z1 "U * dt"]
    by (simp add: z')
qed

lemma step_Ok_shapes:
  assumes "step v dx dt U n z = Ok z'"
  shows "length v - 1 = length z - 1 \<or> length v - 1 = 1"
  using assms slope_term_cases [of z dx n]
  by (auto simp: step_def erosion_rhs_def broadcast_mult_def iadd_upstream_def
      split: comp.splits sum.splits if_splits)

lemma step_shapes_no_Raise:
  assumes "length v - 1 = length z - 1 \<or> length v - 1 = 1"
  shows "step v dx dt U n z \<noteq> Raise e"
  using assms slope_term_cases [of z dx n]
  by (auto simp: step_def erosion_rhs_def broadcast_mult_def iadd_upstream_def
      split: comp.splits sum.splits if_splits)

lemma step_mismatch_not_Ok:
  assumes "length v - 1 \<noteq> length z - 1" and "length v - 1 \<noteq> 1"
  shows "step v dx dt U n z \<noteq> Ok z'"
  using assms step_Ok_shapes [of v dx dt U n z z'] by blast

lemma step_mismatch_Raise:
  assumes "length v - 1 \<noteq> length z - 1" and "length v - 1 \<noteq> 1" and "slope_term z dx n = Ok s"
  shows "step v dx dt U n z = Raise ValueError"
  using assms
  by (auto simp: step_def erosion_rhs_def broadcast_mult_def iadd_upstream_def
      split: comp.splits sum.splits if_splits)

lemma erode_profile:
  "final_profile (erode v dx dt U n k z) = Some z' \<Longrightarrow>
     length z' = length z \<and> drop (length z - 1) z' = drop (length z - 1) z"
proof (induction k arbitrary: z)
  case 0
  then show ?case by simp
next
  case (Suc k)
  show ?case
  proof (cases "step v dx dt U n z")
    case (Ok z1)
    with Suc.prems have "final_profile (erode v dx dt U n k z1) = Some z'" by simp
    from Suc.IH [OF this] step_length [OF Ok] step_outlet [OF Ok] show ?thesis by simp
  next
    case (Raise e)
    with Suc.prems show ?thesis by simp
  next
    case NotFinite
    with Suc.prems show ?thesis by simp
  qed
qed

lemma erode_shapes_no_Raised:
  "length v - 1 = length z - 1 \<or> length v - 1 = 1 \<Longrightarrow> erode v dx dt U n k z \<noteq> Raised e z'"
proof (induction k arbitrary: z)
  case 0
  then show ?case by simp
next
  case (Suc k)
  show ?case
  proof (cases "step v dx dt U n z")
    case (Ok z1)
    have "length z1 = length z" using Ok by (rule step_length)
    with Suc.prems have "length v - 1 = length z1 - 1 \<or> length v - 1 = 1" by simp
    from Suc.IH [OF this] Ok show ?thesis by simp
  next
    case (Raise e')
    with step_shapes_no_Raise [OF Suc.prems, of dx dt U n e'] show ?thesis by simp
  next
    case NotFinite
    then show ?thesis by simp
  qed
qed

lemma erode_Raised_unmutated:
  assumes "erode v dx dt U n k z = Raised e z'"
  shows "z' = z"
proof (cases k)
  case 0
  with assms show ?thesis by simp
next
  case (Suc j)
  show ?thesis
  proof (cases "step v dx dt U n z")
    case (Ok z1)
    have "length z1 = length z" using Ok by (rule step_length)
    with step_Ok_shapes [OF Ok] have "length v - 1 = length z1 - 1 \<or> length v - 1 = 1" by simp
    from erode_shapes_no_Raised [OF this, of dx dt U n j e z'] assms Ok Suc show ?thesis by simp
  next
    case (Raise e')
    with assms Suc show ?thesis by simp
  next
    case NotFinite
    with assms Suc show ?thesis by simp
  qed
qed

lemma erode_mismatch_unmutated:
  assumes "length v - 1 \<noteq> length z - 1" and "length v - 1 \<noteq> 1"
    and "final_profile (erode v dx dt U n k z) = Some z'"
  shows "z' = z"
proof (cases k)
  case 0
  with assms show ?thesis by simp
next
  case (Suc j)
  show ?thesis
  proof (cases "step v dx dt U n z")
    case (Ok z1)
    with step_mismatch_not_Ok [OF assms(1,2)] show ?thesis by blast
  next
    case (Raise e')
    with assms Suc show ?thesis by simp
  next
    case NotFinite
    with assms Suc show ?thesis by simp
  qed
qed

lemma step_equal_lengths:
  assumes "length v = length z" and "slope_term z dx n = Ok s"
  shows "step v dx dt U n z =
     Ok (iadd_upstream_scalar
          (map2 (+) (butlast z) (map2 (*) (map (\<lambda>x. x * dt) (tl v)) s) @ drop (length z - 1) z)
          (U * dt))"
proof -
  have ls: "length s = length z - 1" using assms(2) by (rule slope_term_length)
  then have "broadcast_mult (map (\<lambda>x. x * dt) (tl v)) s = Inr (map2 (*) (map (\<lambda>x. x * dt) (tl v)) s)"
    using assms(1) by (simp add: broadcast_mult_def)
  then show ?thesis using ls assms
    by (simp add: step_def erosion_rhs_def iadd_upstream_def)
qed

lemma step_nth:
  assumes "length v = length z" and "step v dx dt U n z = Ok z'" and "Suc i < length z"
  shows "z' ! i = z ! i + v ! Suc i * dt * np_power (\<bar>z ! Suc i - z ! i\<bar> / dx) n + U * dt"
proof -
  from assms(2) obtain s where s: "slope_term z dx n = Ok s"
    by (auto simp: step_def erosion_rhs_def split: comp.splits)
  have ls: "length s = length z - 1" using s by (rule slope_term_length)
  have i: "i < length z - 1" using assms(3) by simp
  have z': "z' = iadd_upstream_scalar
          (map2 (+) (butlast z) (map2 (*) (map (\<lambda>x. x * dt) (tl v)) s) @ drop (length z - 1) z)
          (U * dt)"
    using step_equal_lengths [OF assms(1) s, of dt U] assms(2) by simp
  have "z' ! i = butlast z ! i + (tl v ! i * dt) * s ! i + U * dt"
    using i ls assms(1) by (auto simp: z' iadd_upstream_scalar_def nth_append butlast_append)
  also have "butlast z ! i = z ! i" using i by (simp add: nth_butlast)
  also have "tl v ! i = v ! Suc i" using i assms(1) by (simp add: nth_tl)
  also have "s ! i = np_power (\<bar>z ! Suc i - z ! i\<bar> / dx) n" using s assms(3) by (rule slope_term_nth)
  finally show ?thesis .
qed

lemma velocity_nth:
  assumes "velocity K A m = Ok v"
  shows "length v = length A" and "i < length A \<Longrightarrow> v ! i = - K * np_power (A ! i) m"
  using assms by (auto simp: velocity_def split: if_splits)

lemma upstream_outlet_id: "butlast z @ drop (length z - 1) z = z"
  by (cases z rule: rev_cases) simp_all

lemma iadd_upstream_scalar_zero: "iadd_upstream_scalar z 0 = z"
  using upstream_outlet_id [of z] by (simp add: iadd_upstream_scalar_def)

lemma iadd_upstream_scalar_twice:
  "iadd_upstream_scalar (iadd_upstream_scalar z a) b = iadd_upstream_scalar z (a + b)"
proof (cases z rule: rev_cases)
  case Nil
  then show ?thesis by (simp add: iadd_upstream_scalar_def)
next
  case (snoc ys y)
  then show ?thesis by (simp add: iadd_upstream_scalar_def add.assoc)
qed

lemma iadd_upstream_scalar_nth:
  "Suc i < length z \<Longrightarrow> iadd_upstream_scalar z c ! i = z ! i + c"
  by (auto simp: iadd_upstream_scalar_def nth_append nth_butlast)

lemma zero_rhs:
  assumes "\<forall>x\<in>set xs. x = (0::real)" and "length xs = length s"
  shows "map2 (*) (map (\<lambda>x. x * dt) xs) s = replicate (length s) 0"
  using assms by (intro nth_equalityI) auto

lemma add_zero_rhs: "length xs = k \<Longrightarrow> map2 (+) xs (replicate k (0::real)) = xs"
  by (intro nth_equalityI) auto

lemma step_zero_velocity:
  assumes "length v = length z" and "\<forall>x\<in>set (tl v). x = 0" and "slope_term z dx n = Ok s"
  shows "step v dx dt U n z = Ok (iadd_upstream_scalar z (U * dt))"
proof -
  have ls: "length s = length z - 1" using assms(3) by (rule slope_term_length)
  have "length (tl v) = length s" using ls assms(1) by simp
  from zero_rhs [OF assms(2) this]
  have "map2 (*) (map (\<lambda>x. x * dt) (tl v)) s = replicate (length z - 1) 0" by (simp add: ls)
  moreover have "map2 (+) (butlast z) (replicate (length z - 1) 0) = butlast z"
    by (rule add_zero_rhs) simp
  ultimately show ?thesis
    using step_equal_lengths [OF assms(1,3), of dt U] upstream_outlet_id [of z] by simp
qed

lemma erode_zero_velocity:
  assumes "\<forall>x\<in>set (tl v). x = 0" and "0 < dx" and "0 \<le> n"
  shows "length v = length z \<Longrightarrow>
     erode v dx dt U n k z = Returned (iadd_upstream_scalar z (real k * (U * dt)))"
proof (induction k arbitrary: z)
  case 0
  then show ?case by (simp add: iadd_upstream_scalar_zero)
next
  case (Suc k)
  from slope_term_Ok [OF assms(2,3)] obtain s where s: "slope_term z dx n = Ok s" by blast
  have st: "step v dx dt U n z = Ok (iadd_upstream_scalar z (U * dt))"
    using Suc.prems assms(1) s by (rule step_zero_velocity)
  have "length v = length (iadd_upstream_scalar z (U * dt))" using Suc.prems by simp
  from Suc.IH [OF this] st show ?case
    by (simp add: iadd_upstream_scalar_twice algebra_simps)
qed

lemma py_int_below_one: "x < 1 \<Longrightarrow> py_int x \<le> 0"
  by (auto simp: py_int_def ceiling_le_iff floor_le_iff)

lemma spe_unfold:
  assumes "velocity K A m = Ok v" and "stable_timestep dx v = Inr s"
    and "nt_iterations total_time (fst (check_timestep dt s)) = Inr k"
  shows "stream_power_erosion z dx A total_time dt U K m n =
     (erode v dx (fst (check_timestep dt s)) U n (nat k) z, snd (check_timestep dt s))"
  using assms by (cases "check_timestep dt s") (simp add: stream_power_erosion_def)

lemma spe_cases:
  "fst (stream_power_erosion z dx A total_time dt U K m n) = NonFinite \<or>
   (\<exists>e. fst (stream_power_erosion z dx A total_time dt U K m n) = Raised e z) \<or>
   (\<exists>v dt' k. velocity K A m = Ok v \<and> v \<noteq> [] \<and>
      fst (stream_power_erosion z dx A total_time dt U K m n) = erode v dx dt' U n k z)"
  by (auto simp: stream_power_erosion_def stable_timestep_def max_abs_def velocity_def
      split: comp.splits sum.splits prod.splits list.splits if_splits)

lemmas spe_defs = stream_power_erosion_def velocity_def stable_timestep_def max_abs_def
  check_timestep_def nt_iterations_def py_int_def np_power_def pow_finite_def step_def
  erosion_rhs_def slope_term_def broadcast_mult_def iadd_upstream_def iadd_upstream_scalar_def

lemma outlet_nth:
  assumes "length z' = length z" and "drop (length z - 1) z' = drop (length z - 1) z" and "z \<noteq> []"
  shows "z' ! (length z - 1) = z ! (length z - 1)"
proof -
  have "length z - 1 < length z" using assms(3) by simp
  then have "hd (drop (length z - 1) z') = z' ! (length z - 1)"
    and "hd (drop (length z - 1) z) = z ! (length z - 1)"
    using assms(1) by (simp_all add: hd_drop_conv_nth)
  then show ?thesis using assms(2) by simp
qed

lemma step_equal_lengths_Ok:
  assumes "length v = length z" and "0 < dx" and "0 \<le> n"
  shows "\<exists>z'. step v dx dt U n z = Ok z'"
proof -
  from slope_term_Ok [OF assms(2,3)] obtain s where "slope_term z dx n = Ok s" by blast
  from step_equal_lengths [OF assms(1) this] show ?thesis by blast
qed

lemma spe_profile:
  assumes "final_profile (fst (stream_power_erosion z dx A total_time dt U K m n)) = Some z'"
  shows "length z' = length z \<and> drop (length z - 1) z' = drop (length z - 1) z"
proof -
  consider "fst (stream_power_erosion z dx A total_time dt U K m n) = NonFinite"
    | e where "fst (stream_power_erosion z dx A total_time dt U K m n) = Raised e z"
    | v dt' k where "fst (stream_power_erosion z dx A total_time dt U K m n) = erode v dx dt' U n k z"
    using spe_cases [of z dx A total_time dt U K m n] by blast
  then show ?thesis
  proof cases
    case 1
    with assms show ?thesis by simp
  next
    case 2
    with assms show ?thesis by simp
  next
    case 3
    with assms erode_profile [of v dx dt' U n k z z'] show ?thesis by simp
  qed
qed

lemma fold_max_zeros:
  "\<forall>x\<in>set xs. x = (0::real) \<Longrightarrow> fold max (map abs xs) 0 = 0"
  by (induction xs) simp_all

lemma spe_Raised_unmutated:
  assumes "fst (stream_power_erosion z dx A total_time dt U K m n) = Raised e z'"
  shows "z' = z"
proof -
  consider "fst (stream_power_erosion z dx A total_time dt U K m n) = NonFinite"
    | e' where "fst (stream_power_erosion z dx A total_time dt U K m n) = Raised e' z"
    | v dt' k where "fst (stream_power_erosion z dx A total_time dt U K m n) = erode v dx dt' U n k z"
    using spe_cases [of z dx A total_time dt U K m n] by blast
  then show ?thesis
  proof cases
    case 1
    with assms show ?thesis by simp
  next
    case 2
    with assms show ?thesis by simp
  next
    case 3
    with assms erode_Raised_unmutated [of v dx dt' U n k z e z'] show ?thesis by simp
  qed
qed

lemma spe_mismatch_unmutated:
  assumes "length A \<noteq> length z" and "length A \<noteq> 2"
    and "final_profile (fst (stream_power_erosion z dx A total_time dt U K m n)) = Some z'"
  shows "z' = z"
proof -
  consider "fst (stream_power_erosion z dx A total_time dt U K m n) = NonFinite"
    | e where "fst (stream_power_erosion z dx A total_time dt U K m n) = Raised e z"
    | v dt' k where "velocity K A m = Ok v" and "v \<noteq> []"
      and "fst (stream_power_erosion z dx A total_time dt U K m n) = erode v dx dt' U n k z"
    using spe_cases [of z dx A total_time dt U K m n] by blast
  then show ?thesis
  proof cases
    case 1
    with assms(3) show ?thesis by simp
  next
    case 2
    with assms(3) show ?thesis by simp
  next
    case 3
    have lv: "length v = length A" using 3(1) by (rule velocity_nth(1))
    have fp: "final_profile (erode v dx dt' U n k z) = Some z'" using 3(3) assms(3) by simp
    have one: "length v - 1 \<noteq> 1" using lv assms(2) by simp
    show ?thesis
    proof (cases "length v - 1 = length z - 1")
      case True
      then have "z = []" using lv assms(1) 3(2) by (cases z; cases v) auto
      moreover have "length z' = length z" using erode_profile [OF fp] by simp
      ultimately show ?thesis by simp
    next
      case False
      from erode_mismatch_unmutated [OF False one fp] show ?thesis .
    qed
  qed
qed

lemma fold_max_ge: "(a::real) \<le> fold max xs a"
proof (induction xs arbitrary: a)
  case Nil
  then show ?case by simp
next
  case (Cons x xs)
  have "a \<le> max x a" by simp
  also have "\<dots> \<le> fold max xs (max x a)" by (rule Cons.IH)
  finally show ?case by simp
qed

lemma max_abs_nonneg: "max_abs v = Inr vmax \<Longrightarrow> 0 \<le> vmax"
proof (cases v)
  case Nil
  assume "max_abs v = Inr vmax"
  with Nil show ?thesis by (simp add: max_abs_def)
next
  case (Cons x xs)
  assume "max_abs v = Inr vmax"
  with Cons have "vmax = fold max (map abs xs) \<bar>x\<bar>" by (simp add: max_abs_def)
  moreover have "\<bar>x\<bar> \<le> fold max (map abs xs) \<bar>x\<bar>" by (rule fold_max_ge)
  ultimately show ?thesis by simp
qed

lemma erode_equal_lengths_Returned:
  assumes "0 < dx" and "0 \<le> n"
  shows "length v = length z \<Longrightarrow> \<exists>z'. erode v dx dt U n k z = Returned z'"
proof (induction k arbitrary: z)
  case 0
  then show ?case by simp
next
  case (Suc k)
  from step_equal_lengths_Ok [OF Suc.prems assms] obtain z1 where st: "step v dx dt U n z = Ok z1"
    by blast
  have "length v = length z1" using step_length [OF st] Suc.prems by simp
  from Suc.IH [OF this] st show ?case by simp
qed

lemma max_abs_all_zero:
  assumes "\<forall>x\<in>set v. x = 0" and "v \<noteq> []"
  shows "max_abs v = Inr 0"
proof -
  from assms(2) obtain x xs where v: "v = x # xs" by (cases v) auto
  with assms(1) have "x = 0" and "\<forall>y\<in>set xs. y = 0" by simp_all
  then show ?thesis using fold_max_zeros [of xs] by (simp add: v max_abs_def)
qed

lemma funpow_add_const: "((\<lambda>x. x + c) ^^ k) (x::real) = x + real k * c"
  by (induction k) (simp_all add: algebra_simps)

lemma velocity_zero_erodibility:
  assumes "velocity 0 A m = Ok v"
  shows "\<forall>x\<in>set v. x = 0"
  using assms by (auto simp: velocity_def split: if_splits)

lemma erode_zero_velocity_nth:
  assumes "\<forall>x\<in>set (tl v). x = 0" and "0 < dx" and "0 \<le> n" and "length v = length z"
  shows "\<exists>z'. erode v dx dt U n k z = Returned z' \<and> length z' = length z \<and>
     (\<forall>i. Suc i < length z \<longrightarrow> z' ! i = ((\<lambda>x. x + U * dt) ^^ k) (z ! i)) \<and>
     (z \<noteq> [] \<longrightarrow> z' ! (length z - 1) = z ! (length z - 1))"
proof -
  define z' where "z' = iadd_upstream_scalar z (real k * (U * dt))"
  have r: "erode v dx dt U n k z = Returned z'"
    unfolding z'_def using assms by (rule erode_zero_velocity)
  have l: "length z' = length z" by (simp add: z'_def)
  have f: "z' ! i = ((\<lambda>x. x + U * dt) ^^ k) (z ! i)" if "Suc i < length z" for i
    using iadd_upstream_scalar_nth [OF that, of "real k * (U * dt)"]
    by (simp add: z'_def funpow_add_const)
  have "drop (length z - 1) z' = drop (length z - 1) z"
    unfolding z'_def by (rule iadd_upstream_scalar_outlet)
  with l have o: "z \<noteq> [] \<longrightarrow> z' ! (length z - 1) = z ! (length z - 1)"
    using outlet_nth [of z' z] by blast
  from r l f o show ?thesis by blast
qed

section \<open>Properties of the routine\<close>

text \<open>
  C1. One integration step maps a profile \<open>z\<close> to \<open>z'\<close> with
  \<open>z'[i] = z[i] + v[i+1]*dt*(|z[i+1]-z[i]|/dx)^n + U*dt\<close> at every non-outlet index, where
  \<open>v = -K*A^m\<close>; every value on the right is read from the profile before the step, the
  outlet keeps its value, and the next step of the loop starts from \<open>z'\<close>. With a positive
  grid spacing and a non-negative slope exponent the step always yields such a \<open>z'\<close>.
\<close>

theorem step_updates_upstream_nodes:
  assumes "velocity K A m = Ok v" and "length A = length z"
  shows "(0 < dx \<and> 0 \<le> n \<longrightarrow> (\<exists>z'. step v dx dt U n z = Ok z')) \<and>
     (\<forall>z'. step v dx dt U n z = Ok z' \<longrightarrow>
        length z' = length z \<and>
        (\<forall>i. Suc i < length z \<longrightarrow>
           z' ! i = z ! i + (- K * np_power (A ! Suc i) m) * dt
                      * np_power (\<bar>z ! Suc i - z ! i\<bar> / dx) n + U * dt) \<and>
        (z \<noteq> [] \<longrightarrow> z' ! (length z - 1) = z ! (length z - 1)) \<and>
        (\<forall>k. erode v dx dt U n (Suc k) z = erode v dx dt U n k z'))"
proof -
  have lv: "length v = length z" using velocity_nth(1) [OF assms(1)] assms(2) by simp
  have ex: "0 < dx \<and> 0 \<le> n \<longrightarrow> (\<exists>z'. step v dx dt U n z = Ok z')"
    using step_equal_lengths_Ok [OF lv] by blast
  have upd: "length z' = length z \<and>
        (\<forall>i. Suc i < length z \<longrightarrow>
           z' ! i = z ! i + (- K * np_power (A ! Suc i) m) * dt
                      * np_power (\<bar>z ! Suc i - z ! i\<bar> / dx) n + U * dt) \<and>
        (z \<noteq> [] \<longrightarrow> z' ! (length z - 1) = z ! (length z - 1)) \<and>
        (\<forall>k. erode v dx dt U n (Suc k) z = erode v dx dt U n k z')"
    if st: "step v dx dt U n z = Ok z'" for z'
  proof -
    have l: "length z' = length z" using st by (rule step_length)
    have f: "z' ! i = z ! i + (- K * np_power (A ! Suc i) m) * dt
                      * np_power (\<bar>z ! Suc i - z ! i\<bar> / dx) n + U * dt"
      if "Suc i < length z" for i
      using step_nth [OF lv st that] velocity_nth(2) [OF assms(1), of "Suc i"] that assms(2)
      by simp
    have o: "z \<noteq> [] \<longrightarrow> z' ! (length z - 1) = z ! (length z - 1)"
      using outlet_nth [OF l step_outlet [OF st]] by blast
    have e: "erode v dx dt U n (Suc k) z = erode v dx dt U n k z'" for k
      using st by simp
    from l f o e show ?thesis by blast
  qed
  from ex upd show ?thesis by blast
qed

theorem step_updates_upstream_nodes_witness:
  "velocity 1 [1, 4, 9] 1 = Ok [- 1, - 4, - 9] \<and>
   (\<exists>z'. step [- 1, - 4, - 9] 2 1 1 1 [3, 1, 0] = Ok z' \<and> length z' = 3 \<and>
      z' ! 0 = 0 \<and> z' ! 1 = - 5 / 2 \<and> z' ! 2 = 0)"
proof -
  have h1: "velocity 1 [1, 4, 9] 1 = Ok [- 1, - 4, - 9]"
    by (simp add: velocity_def pow_finite_def np_power_def)
  have h2: "length [1, 4, 9 :: real] = length [3, 1, 0 :: real]" by simp
  note t = step_updates_upstream_nodes [OF h1 h2, of 2 1 1 1]
  from t obtain z' where st: "step [- 1, - 4, - 9] 2 1 1 1 [3, 1, 0] = Ok z'" by auto
  from t st have l: "length z' = 3" by simp
  from t st have "Suc 0 < length [3, 1, 0 :: real] \<longrightarrow>
      z' ! 0 = [3, 1, 0] ! 0 + (- 1 * np_power ([1, 4, 9] ! Suc 0) 1) * 1
                 * np_power (\<bar>[3, 1, 0] ! Suc 0 - [3, 1, 0] ! 0\<bar> / 2) 1 + 1 * 1"
    by blast
  then have z0: "z' ! 0 = 0" by (simp add: np_power_def)
  from t st have "Suc 1 < length [3, 1, 0 :: real] \<longrightarrow>
      z' ! 1 = [3, 1, 0] ! 1 + (- 1 * np_power ([1, 4, 9] ! Suc 1) 1) * 1
                 * np_power (\<bar>[3, 1, 0] ! Suc 1 - [3, 1, 0] ! 1\<bar> / 2) 1 + 1 * 1"
    by blast
  then have z1: "z' ! 1 = - 5 / 2" by (simp add: np_power_def)
  from t st have z2: "z' ! 2 = 0" by (simp add: numeral_2_eq_2)
  from h1 st l z0 z1 z2 show ?thesis by blast
qed

text \<open>
  C2, as stated, fails when \<open>0.95*dx/max|v|\<close> is below one: the substituted timestep is
  \<open>int(0.95) = 0\<close>, the warning is printed, and \<^verbatim>\<open>total_time/dt\<close> raises
  \<open>ZeroDivisionError\<close>, so the run is aborted.
\<close>

theorem zero_stable_timestep_counterexample:
  "velocity 1 [1, 1] 1 = Ok [- 1, - 1] \<and> max_abs [- 1, - 1] = Inr 1 \<and>
   95 / 100 * 1 / 1 < (50::real) \<and>
   stream_power_erosion [0, 0] 1 [1, 1] 100 50 (1 / 1000) 1 1 1
     = (Raised ZeroDivisionError [0, 0], [StabilityWarning 0])"
  by (simp add: spe_defs)

text \<open>
  C2, amended. When the requested timestep exceeds \<open>0.95*dx/max|v|\<close> and the floor \<open>s\<close> of
  that bound is at least one, the stable timestep is exactly \<open>s\<close>, the timestep used is
  \<open>s\<close>, one warning carrying \<open>s\<close> is printed, for a non-negative total time the iteration
  count is \<open>floor(total_time/s)\<close>, and the call goes on into the loop with these values;
  with arrays of equal length and a non-negative slope exponent it returns a profile.
\<close>

theorem stability_override:
  assumes "velocity K A m = Ok v" and "max_abs v = Inr vmax"
    and "s = \<lfloor>95 / 100 * dx / vmax\<rfloor>" and "1 \<le> s"
    and "95 / 100 * dx / vmax < dt" and "0 \<le> total_time"
  shows "stable_timestep dx v = Inr s \<and>
     check_timestep dt s = (of_int s, [StabilityWarning s]) \<and>
     nt_iterations total_time (of_int s) = Inr \<lfloor>total_time / of_int s\<rfloor> \<and>
     stream_power_erosion z dx A total_time dt U K m n
       = (erode v dx (of_int s) U n (nat \<lfloor>total_time / of_int s\<rfloor>) z, [StabilityWarning s]) \<and>
     (length A = length z \<and> 0 \<le> n \<longrightarrow>
        (\<exists>z'. erode v dx (of_int s) U n (nat \<lfloor>total_time / of_int s\<rfloor>) z = Returned z'))"
proof -
  have q: "1 \<le> 95 / 100 * dx / vmax" using assms(3,4) by linarith
  then have nz: "vmax \<noteq> 0" by auto
  with max_abs_nonneg [OF assms(2)] have "0 < vmax" by simp
  with q have dx: "0 < dx" by (simp add: field_simps)
  have st: "stable_timestep dx v = Inr s"
    using assms(2,3) q nz by (simp add: stable_timestep_def py_int_def)
  have "of_int s \<le> 95 / 100 * dx / vmax" using assms(3) by simp
  then have "of_int s < dt" using assms(5) by linarith
  then have ck: "check_timestep dt s = (of_int s, [StabilityWarning s])"
    by (simp add: check_timestep_def)
  have "0 \<le> total_time / of_int s" using assms(4,6) by simp
  then have nt: "nt_iterations total_time (of_int s) = Inr \<lfloor>total_time / of_int s\<rfloor>"
    using assms(4) by (simp add: nt_iterations_def py_int_def)
  have "nt_iterations total_time (fst (check_timestep dt s)) = Inr \<lfloor>total_time / of_int s\<rfloor>"
    using nt ck by simp
  from spe_unfold [OF assms(1) st this, of z U n] ck
  have r: "stream_power_erosion z dx A total_time dt U K m n
       = (erode v dx (of_int s) U n (nat \<lfloor>total_time / of_int s\<rfloor>) z, [StabilityWarning s])"
    by simp
  have c: "\<exists>z'. erode v dx (of_int s) U n (nat \<lfloor>total_time / of_int s\<rfloor>) z = Returned z'"
    if "length A = length z" and "0 \<le> n"
  proof -
    have "length v = length z" using velocity_nth(1) [OF assms(1)] that(1) by simp
    from erode_equal_lengths_Returned [OF dx that(2) this] show ?thesis .
  qed
  from st ck nt r c show ?thesis by blast
qed

theorem stability_override_witness:
  "stream_power_erosion [0, 0, 0] 4 [1, 1, 1] 7 50 1 1 1 1
     = (Returned [6, 15 / 4, 0], [StabilityWarning 3])"
proof -
  have h1: "velocity 1 [1, 1, 1] 1 = Ok [- 1, - 1, - 1]"
    by (simp add: velocity_def pow_finite_def np_power_def)
  have h2: "max_abs [- 1, - 1, - 1] = Inr 1" by (simp add: max_abs_def)
  have h3: "(3::int) = \<lfloor>95 / 100 * 4 / (1::real)\<rfloor>" by simp
  have h4: "(1::int) \<le> 3" by simp
  have h5: "95 / 100 * 4 / 1 < (50::real)" by simp
  have h6: "(0::real) \<le> 7" by simp
  have f: "nat \<lfloor>(7::real) / of_int 3\<rfloor> = 2" by simp
  have e: "erode [- 1, - 1, - 1] 4 3 1 1 2 [0, 0, 0] = Returned [6, 15 / 4, 0]"
    by (simp add: numeral_2_eq_2 spe_defs)
  from stability_override [OF h1 h2 h3 h4 h5 h6, of "[0, 0, 0]" 1 1] f e
  show ?thesis by simp
qed

text \<open>
  C3. For a non-empty profile, whenever the call ends with a profile (returned, or left in
  the caller's array by an exception), the length is unchanged and the outlet node, the last
  index, has its input value; the same holds for every single step of the loop.
\<close>

theorem outlet_invariant:
  assumes "z \<noteq> []"
  shows "(final_profile (fst (stream_power_erosion z dx A total_time dt U K m n)) = Some z'
            \<longrightarrow> length z' = length z \<and> z' ! (length z - 1) = z ! (length z - 1)) \<and>
         (step v dx dt' U n z = Ok z1
            \<longrightarrow> length z1 = length z \<and> z1 ! (length z - 1) = z ! (length z - 1))"
proof -
  have a: "length z' = length z \<and> z' ! (length z - 1) = z ! (length z - 1)"
    if "final_profile (fst (stream_power_erosion z dx A total_time dt U K m n)) = Some z'"
    using spe_profile [OF that] outlet_nth [of z' z] assms by blast
  have b: "length z1 = length z \<and> z1 ! (length z - 1) = z ! (length z - 1)"
    if "step v dx dt' U n z = Ok z1"
    using step_length [OF that] step_outlet [OF that] outlet_nth [of z1 z] assms by blast
  from a b show ?thesis by blast
qed

theorem outlet_invariant_witness:
  "stream_power_erosion [5, 2, 1] 4 [1, 1, 1] 7 50 1 1 1 1 = (Returned [61 / 8, 77 / 16, 1], [StabilityWarning 3]) \<and>
   [61 / 8, 77 / 16, 1 :: real] ! 2 = [5, 2, 1] ! 2 \<and>
   step [- 1, - 1, - 1] 4 3 1 1 [5, 2, 1] = Ok [23 / 4, 17 / 4, 1]"
proof -
  have r: "stream_power_erosion [5, 2, 1] 4 [1, 1, 1] 7 50 1 1 1 1
      = (Returned [61 / 8, 77 / 16, 1], [StabilityWarning 3])"
    by (simp add: spe_defs numeral_2_eq_2)
  have s: "step [- 1, - 1, - 1] 4 3 1 1 [5, 2, 1] = Ok [23 / 4, 17 / 4, 1]"
    by (simp add: spe_defs)
  have ne: "[5, 2, 1 :: real] \<noteq> []" by simp
  from outlet_invariant [OF ne, of 4 "[1, 1, 1]" 7 50 1 1 1 1 "[61 / 8, 77 / 16, 1]"
      "[- 1, - 1, - 1]" 3 "[23 / 4, 17 / 4, 1]"] r s
  show ?thesis by simp
qed

text \<open>
  C4, as stated, fails on an input the data model allows: with \<open>total_time = 0\<close> and
  \<open>0.95*dx/max|v|\<close> below one, the substituted timestep is zero and \<^verbatim>\<open>total_time/dt\<close>
  raises \<open>ZeroDivisionError\<close> instead of giving the iteration count zero.
\<close>

theorem zero_total_time_counterexample:
  "velocity 1 [1, 1] 1 = Ok [- 1, - 1] \<and> max_abs [- 1, - 1] = Inr 1 \<and>
   stream_power_erosion [0, 0] 1 [1, 1] 0 50 (1 / 1000) 1 1 1
     = (Raised ZeroDivisionError [0, 0], [StabilityWarning 0])"
  by (simp add: spe_defs)

text \<open>
  C4, amended. No-op law. When the velocity field is finite, its largest absolute value
  \<open>max|v|\<close> is not zero, and the timestep used (the requested one, or the stable one
  substituted for it) is not zero: a zero total time, or more generally a computed iteration
  count \<open>int(total_time/dt)\<close> of zero, makes the count zero and the call return the input
  profile unchanged at every node.
\<close>

theorem zero_iterations_noop:
  assumes "velocity K A m = Ok v" and "max_abs v = Inr vmax" and "vmax \<noteq> 0"
    and "dt' = fst (check_timestep dt (py_int (95 / 100 * dx / vmax)))" and "dt' \<noteq> 0"
    and "total_time = 0 \<or> py_int (total_time / dt') = 0"
  shows "nt_iterations total_time dt' = Inr 0 \<and>
     stream_power_erosion z dx A total_time dt U K m n
       = (Returned z, snd (check_timestep dt (py_int (95 / 100 * dx / vmax))))"
proof -
  have st: "stable_timestep dx v = Inr (py_int (95 / 100 * dx / vmax))"
    using assms(2,3) by (simp add: stable_timestep_def)
  have "py_int (total_time / dt') = 0" using assms(6) by (auto simp: py_int_def)
  then have nt: "nt_iterations total_time dt' = Inr 0"
    using assms(5) by (simp add: nt_iterations_def)
  then have "nt_iterations total_time (fst (check_timestep dt (py_int (95 / 100 * dx / vmax)))) = Inr 0"
    using assms(4) by simp
  from spe_unfold [OF assms(1) st this, of z U n] nt show ?thesis by simp
qed

theorem zero_iterations_noop_witness:
  "stream_power_erosion [5, 2, 1] 4 [1, 1, 1] 0 50 1 1 1 1 = (Returned [5, 2, 1], [StabilityWarning 3]) \<and>
   stream_power_erosion [5, 2, 1] 4 [1, 1, 1] 2 3 1 1 1 1 = (Returned [5, 2, 1], [])"
proof -
  have h1: "velocity 1 [1, 1, 1] 1 = Ok [- 1, - 1, - 1]"
    by (simp add: velocity_def pow_finite_def np_power_def)
  have h2: "max_abs [- 1, - 1, - 1] = Inr 1" by (simp add: max_abs_def)
  have h3: "(1::real) \<noteq> 0" by simp
  have h4: "(3::real) = fst (check_timestep 50 (py_int (95 / 100 * 4 / 1)))"
    by (simp add: check_timestep_def py_int_def)
  have h4': "(3::real) = fst (check_timestep 3 (py_int (95 / 100 * 4 / 1)))"
    by (simp add: check_timestep_def py_int_def)
  have h5: "(3::real) \<noteq> 0" by simp
  have h6: "(0::real) = 0 \<or> py_int (0 / 3) = 0" by simp
  have h6': "(2::real) = 0 \<or> py_int (2 / 3) = 0" by (simp add: py_int_def)
  have c: "snd (check_timestep 50 (py_int (95 / 100 * 4 / 1))) = [StabilityWarning 3]"
    "snd (check_timestep 3 (py_int (95 / 100 * 4 / 1))) = []"
    by (simp_all add: check_timestep_def py_int_def)
  from zero_iterations_noop [OF h1 h2 h3 h4 h5 h6, of "[5, 2, 1]" 1 1]
    zero_iterations_noop [OF h1 h2 h3 h4' h5 h6', of "[5, 2, 1]" 1 1] c
  show ?thesis by simp
qed

text \<open>
  C5. On a non-empty area profile the largest absolute velocity is exactly zero when
  \<open>K = 0\<close>, and when every drainage area is zero and \<open>m\<close> is positive. Whenever it is
  zero, the call raises at the stability check and reports the exception to the caller: the
  quotient \<open>0.95*dx/0\<close> is infinite (NaN for \<open>dx = 0\<close>) and its conversion to an integer
  raises \<open>OverflowError\<close> (\<open>ValueError\<close>). No stable timestep is bound, nothing is printed
  and the profile is untouched.
\<close>

theorem degenerate_velocity_raises:
  assumes "velocity K A m = Ok v" and "A \<noteq> []"
  shows "(K = 0 \<longrightarrow> max_abs v = Inr 0) \<and>
     ((\<forall>a\<in>set A. a = 0) \<and> 0 < m \<longrightarrow> max_abs v = Inr 0) \<and>
     (max_abs v = Inr 0 \<longrightarrow>
        stream_power_erosion z dx A total_time dt U K m n
          = (Raised (if 95 / 100 * dx = 0 then ValueError else OverflowError) z, []))"
proof -
  have v: "v = map (\<lambda>a. - K * np_power a m) A"
    using assms(1) by (auto simp: velocity_def split: if_splits)
  then have ne: "v \<noteq> []" using assms(2) by simp
  have a: "max_abs v = Inr 0" if "K = 0"
    using that ne by (intro max_abs_all_zero) (auto simp: v)
  have b: "max_abs v = Inr 0" if "\<forall>a\<in>set A. a = 0" and "0 < m"
    using that ne by (intro max_abs_all_zero) (auto simp: v np_power_def)
  have c: "stream_power_erosion z dx A total_time dt U K m n
          = (Raised (if 95 / 100 * dx = 0 then ValueError else OverflowError) z, [])"
    if "max_abs v = Inr 0"
    using assms(1) that by (simp add: stream_power_erosion_def stable_timestep_def)
  from a b c show ?thesis by blast
qed

theorem degenerate_velocity_raises_witness:
  "stream_power_erosion [5, 2, 1] 50 [0, 2500, 10000] 10000 50 (1 / 1000) 0 (1 / 2) 1
     = (Raised OverflowError [5, 2, 1], []) \<and>
   stream_power_erosion [5, 2, 1] 50 [0, 0, 0] 10000 50 (1 / 1000) (1 / 10000) (1 / 2) 1
     = (Raised OverflowError [5, 2, 1], [])"
proof -
  have h1: "velocity 0 [0, 2500, 10000] (1 / 2) = Ok [0, 0, 0]"
    by (simp add: velocity_def pow_finite_def)
  have h2: "velocity (1 / 10000) [0, 0, 0] (1 / 2) = Ok [0, 0, 0]"
    by (simp add: velocity_def pow_finite_def np_power_def)
  have ne: "[0, 2500, 10000 :: real] \<noteq> []" "[0, 0, 0 :: real] \<noteq> []" by simp_all
  from degenerate_velocity_raises [OF h1 ne(1), of "[5, 2, 1]" 50 10000 50 "1 / 1000" 1]
    degenerate_velocity_raises [OF h2 ne(2), of "[5, 2, 1]" 50 10000 50 "1 / 1000" 1]
  show ?thesis by simp
qed

text \<open>
  C6, as stated, fails: with \<open>K = 0\<close> the velocity field is zero, the stability check
  raises, and no profile is returned.
\<close>

theorem zero_erodibility_counterexample:
  "velocity 0 [1, 1] 1 = Ok [0, 0] \<and>
   stream_power_erosion [0, 0] 1 [1, 1] 100 50 1 0 1 1 = (Raised OverflowError [0, 0], [])"
  by (simp add: spe_defs)

text \<open>
  C6, amended. Take arrays of equal length with a finite velocity field, a positive grid
  spacing and a non-negative slope exponent, and let \<open>K = 0\<close> or, more generally, let the velocities at the nodes
  \<open>1..N-1\<close> be zero. Then the loop, run for any number \<open>k\<close> of steps with any timestep
  \<open>dt\<close> on that velocity field, returns the input with \<open>U*dt\<close> added \<open>k\<close> times at every
  non-outlet node and the outlet unchanged. Whenever in addition \<open>max|v|\<close> is not zero and
  the timestep used is not zero, the call is that loop, with \<open>dt\<close> the timestep used and
  \<open>k\<close> the number of iterations run, \<open>max(int(total_time/dt), 0)\<close>.
\<close>

theorem uplift_only:
  assumes "velocity K A m = Ok v" and "length A = length z" and "0 < dx" and "0 \<le> n"
    and "K = 0 \<or> (\<forall>x\<in>set (tl v). x = 0)"
  shows "(\<exists>z'. erode v dx dt' U n k z = Returned z' \<and> length z' = length z \<and>
        (\<forall>i. Suc i < length z \<longrightarrow> z' ! i = ((\<lambda>x. x + U * dt') ^^ k) (z ! i)) \<and>
        (z \<noteq> [] \<longrightarrow> z' ! (length z - 1) = z ! (length z - 1))) \<and>
     (max_abs v = Inr vmax \<and> vmax \<noteq> 0 \<and>
      dt' = fst (check_timestep dt (py_int (95 / 100 * dx / vmax))) \<and> dt' \<noteq> 0 \<and>
      k = nat (py_int (total_time / dt'))
        \<longrightarrow> fst (stream_power_erosion z dx A total_time dt U K m n) = erode v dx dt' U n k z)"
proof -
  have lv: "length v = length z" using velocity_nth(1) [OF assms(1)] assms(2) by simp
  have "\<forall>x\<in>set v. x = 0" if "K = 0"
    using velocity_zero_erodibility [of A m v] assms(1) that by simp
  then have "\<forall>x\<in>set (tl v). x = 0" if "K = 0"
    using that by (cases v) auto
  with assms(5) have zt: "\<forall>x\<in>set (tl v). x = 0" by blast
  note a = erode_zero_velocity_nth [OF zt assms(3,4) lv, of dt' U k]
  have b: "fst (stream_power_erosion z dx A total_time dt U K m n) = erode v dx dt' U n k z"
    if vm: "max_abs v = Inr vmax" "vmax \<noteq> 0"
      and d: "dt' = fst (check_timestep dt (py_int (95 / 100 * dx / vmax)))" "dt' \<noteq> 0"
      and k: "k = nat (py_int (total_time / dt'))"
  proof -
    have st: "stable_timestep dx v = Inr (py_int (95 / 100 * dx / vmax))"
      using vm by (simp add: stable_timestep_def)
    have nt: "nt_iterations total_time (fst (check_timestep dt (py_int (95 / 100 * dx / vmax))))
        = Inr (py_int (total_time / dt'))"
      using d by (simp add: nt_iterations_def)
    from spe_unfold [OF assms(1) st nt, of z U n] d k show ?thesis by simp
  qed
  from a b show ?thesis by blast
qed

theorem uplift_only_witness:
  "(\<exists>z'. fst (stream_power_erosion [5, 1, 0] 8 [4, 0, 0] 3 50 2 1 1 1) = Returned z' \<and>
      z' ! 0 = 11 \<and> z' ! 1 = 7 \<and> z' ! 2 = 0) \<and>
   velocity 0 [4, 1, 1] 1 = Ok [0, 0, 0] \<and>
   (\<exists>z'. erode [0, 0, 0] 8 1 2 1 3 [5, 1, 0] = Returned z' \<and>
      z' ! 0 = 11 \<and> z' ! 1 = 7 \<and> z' ! 2 = 0)"
proof -
  have h1: "velocity 1 [4, 0, 0] 1 = Ok [- 4, 0, 0]"
    by (simp add: velocity_def pow_finite_def np_power_def)
  have h2: "length [4, 0, 0 :: real] = length [5, 1, 0 :: real]" by simp
  have h3: "(0::real) < 8" and h4: "(0::real) \<le> 1" by simp_all
  have h5: "(1::real) = 0 \<or> (\<forall>x\<in>set (tl [- 4, 0, 0 :: real]). x = 0)" by simp
  have m: "max_abs [- 4, 0, 0] = Inr 4" by (simp add: max_abs_def)
  have d: "fst (check_timestep 50 (py_int (95 / 100 * 8 / 4))) = 1"
    by (simp add: check_timestep_def py_int_def)
  have k: "nat (py_int (3 / 1)) = 3" by (simp add: py_int_def)
  have fp: "((\<lambda>x. x + 2 * 1) ^^ 3) (5::real) = 11" "((\<lambda>x. x + 2 * 1) ^^ 3) (1::real) = 7"
    by (simp_all add: numeral_3_eq_3)
  note t = uplift_only [OF h1 h2 h3 h4 h5, of 1 2 3 4 50 3]
  from t [THEN conjunct1] obtain z' where e: "erode [- 4, 0, 0] 8 1 2 1 3 [5, 1, 0] = Returned z'"
    and f: "\<forall>i. Suc i < length [5, 1, 0 :: real] \<longrightarrow> z' ! i = ((\<lambda>x. x + 2 * 1) ^^ 3) ([5, 1, 0] ! i)"
    and o: "z' ! (length [5, 1, 0 :: real] - 1) = [5, 1, 0] ! (length [5, 1, 0 :: real] - 1)"
    by auto
  from t [THEN conjunct2] m d k have r: "fst (stream_power_erosion [5, 1, 0] 8 [4, 0, 0] 3 50 2 1 1 1)
      = erode [- 4, 0, 0] 8 1 2 1 3 [5, 1, 0]"
    by simp
  from f have "Suc 0 < length [5, 1, 0 :: real] \<longrightarrow> z' ! 0 = ((\<lambda>x. x + 2 * 1) ^^ 3) ([5, 1, 0] ! 0)"
    by blast
  with fp have z0: "z' ! 0 = 11" by simp
  from f have "Suc 1 < length [5, 1, 0 :: real] \<longrightarrow> z' ! 1 = ((\<lambda>x. x + 2 * 1) ^^ 3) ([5, 1, 0] ! 1)"
    by blast
  with fp have z1: "z' ! 1 = 7" by simp
  from o have z2: "z' ! 2 = 0" by (simp add: numeral_2_eq_2)
  have c1: "\<exists>z'. fst (stream_power_erosion [5, 1, 0] 8 [4, 0, 0] 3 50 2 1 1 1) = Returned z' \<and>
      z' ! 0 = 11 \<and> z' ! 1 = 7 \<and> z' ! 2 = 0"
    using r e z0 z1 z2 by simp
  have g1: "velocity 0 [4, 1, 1] 1 = Ok [0, 0, 0]"
    by (simp add: velocity_def pow_finite_def np_power_def)
  have g2: "length [4, 1, 1 :: real] = length [5, 1, 0 :: real]" by simp
  have g5: "(0::real) = 0 \<or> (\<forall>x\<in>set (tl [0, 0, 0 :: real]). x = 0)" by simp
  note u = uplift_only [OF g1 g2 h3 h4 g5, of 1 2 3, THEN conjunct1]
  from u obtain w where e': "erode [0, 0, 0] 8 1 2 1 3 [5, 1, 0] = Returned w"
    and f': "\<forall>i. Suc i < length [5, 1, 0 :: real] \<longrightarrow> w ! i = ((\<lambda>x. x + 2 * 1) ^^ 3) ([5, 1, 0] ! i)"
    and o': "w ! (length [5, 1, 0 :: real] - 1) = [5, 1, 0] ! (length [5, 1, 0 :: real] - 1)"
    by auto
  from f' have "Suc 0 < length [5, 1, 0 :: real] \<longrightarrow> w ! 0 = ((\<lambda>x. x + 2 * 1) ^^ 3) ([5, 1, 0] ! 0)"
    by blast
  with fp have w0: "w ! 0 = 11" by simp
  from f' have "Suc 1 < length [5, 1, 0 :: real] \<longrightarrow> w ! 1 = ((\<lambda>x. x + 2 * 1) ^^ 3) ([5, 1, 0] ! 1)"
    by blast
  with fp have w1: "w ! 1 = 7" by simp
  from o' have w2: "w ! 2 = 0" by (simp add: numeral_2_eq_2)
  from c1 g1 e' w0 w1 w2 show ?thesis by blast
qed

text \<open>
  C7, as stated, fails in two ways: a zero timestep makes \<^verbatim>\<open>total_time/dt\<close> raise
  \<open>ZeroDivisionError\<close>, and a negative timestep with a negative total time gives a positive
  iteration count, so the loop runs (backwards in time) and the profile changes.
\<close>

theorem nonpositive_timestep_counterexample:
  "stream_power_erosion [0, 0] 1 [1, 1] 100 0 1 1 1 1 = (Raised ZeroDivisionError [0, 0], []) \<and>
   stream_power_erosion [0, 0] 1 [1, 1] (- 2) (- 1) 1 1 1 1 = (Returned [- 1, 0], [])"
  by (simp add: spe_defs numeral_2_eq_2)

text \<open>
  C7, amended. When the stability check succeeds and either the timestep is negative and
  the total time is not, or the total time is negative and the timestep is positive with a
  stable timestep of at least one, the iteration count is computed, it is zero or negative,
  and the call returns the input profile unchanged.
\<close>

theorem opposite_signs_noop:
  assumes "velocity K A m = Ok v" and "stable_timestep dx v = Inr s"
    and "(dt < 0 \<and> 0 \<le> total_time) \<or> (0 < dt \<and> 1 \<le> s \<and> total_time < 0)"
  shows "\<exists>k. nt_iterations total_time (fst (check_timestep dt s)) = Inr k \<and> k \<le> 0 \<and>
     stream_power_erosion z dx A total_time dt U K m n = (Returned z, snd (check_timestep dt s))"
proof -
  define dt' where "dt' = fst (check_timestep dt s)"
  have "(dt' < 0 \<and> 0 \<le> total_time) \<or> (0 < dt' \<and> total_time < 0)"
    using assms(3) by (auto simp: dt'_def check_timestep_def)
  then have nz: "dt' \<noteq> 0" and q: "total_time / dt' < 1"
    by (auto simp: divide_less_eq field_simps)
  have nt: "nt_iterations total_time dt' = Inr (py_int (total_time / dt'))"
    using nz by (simp add: nt_iterations_def)
  have le: "py_int (total_time / dt') \<le> 0" using q by (rule py_int_below_one)
  from spe_unfold [OF assms(1,2), of total_time dt "py_int (total_time / dt')" z U n] nt le
  have "stream_power_erosion z dx A total_time dt U K m n = (Returned z, snd (check_timestep dt s))"
    by (simp add: dt'_def)
  with nt le show ?thesis unfolding dt'_def by blast
qed

theorem opposite_signs_noop_witness:
  "stream_power_erosion [5, 2, 1] 4 [1, 1, 1] 7 (- 2) 1 1 1 1 = (Returned [5, 2, 1], []) \<and>
   stream_power_erosion [5, 2, 1] 4 [1, 1, 1] (- 7) 50 1 1 1 1 = (Returned [5, 2, 1], [StabilityWarning 3])"
proof -
  have h1: "velocity 1 [1, 1, 1] 1 = Ok [- 1, - 1, - 1]"
    by (simp add: velocity_def pow_finite_def np_power_def)
  have h2: "stable_timestep 4 [- 1, - 1, - 1] = Inr 3"
    by (simp add: stable_timestep_def max_abs_def py_int_def)
  have h3: "((- 2::real) < 0 \<and> (0::real) \<le> 7) \<or> ((0::real) < - 2 \<and> (1::int) \<le> 3 \<and> (7::real) < 0)"
    by simp
  have h3': "((50::real) < 0 \<and> (0::real) \<le> - 7) \<or> ((0::real) < 50 \<and> (1::int) \<le> 3 \<and> (- 7::real) < 0)"
    by simp
  have c: "snd (check_timestep (- 2) 3) = []" "snd (check_timestep 50 3) = [StabilityWarning 3]"
    by (simp_all add: check_timestep_def)
  from opposite_signs_noop [OF h1 h2 h3, of "[5, 2, 1]" 1 1]
    opposite_signs_noop [OF h1 h2 h3', of "[5, 2, 1]" 1 1] c
  show ?thesis by auto
qed

text \<open>
  C8, as stated, fails: the routine compares no lengths. With an area profile of length 2
  numpy broadcasts the single velocity \<open>v[1]\<close> over all nodes, so a call on a profile of
  length 3 runs the stability check, prints its warning, mutates the profile and returns.
\<close>

theorem shape_mismatch_counterexample:
  "length [1, 1 :: real] \<noteq> length [0, 0, 0 :: real] \<and>
   stream_power_erosion [0, 0, 0] 2 [1, 1] 1 50 1 1 1 1 = (Returned [1, 1, 0], [StabilityWarning 1])"
  by (simp add: spe_defs)

text \<open>
  C8, amended. Whenever the call raises, the profile is as it was on entry: no exception
  leaves a partly updated profile. When the two lengths differ and the area profile does not
  have length 2, the profile is never mutated, whether the call raises or returns; and if
  moreover the profile has at least two nodes, the stability check succeeds, at least one
  iteration is due, the grid spacing is positive and the slope exponent non-negative, the
  call raises \<open>ValueError\<close> in the first integration step, after the stability check.
\<close>

theorem mismatched_lengths_leave_profile:
  shows "(fst (stream_power_erosion z dx A total_time dt U K m n) = Raised e z' \<longrightarrow> z' = z) \<and>
     (length A \<noteq> length z \<and> length A \<noteq> 2 \<longrightarrow>
        (final_profile (fst (stream_power_erosion z dx A total_time dt U K m n)) = Some z'
           \<longrightarrow> z' = z) \<and>
        (velocity K A m = Ok v \<and> stable_timestep dx v = Inr s \<and>
         nt_iterations total_time (fst (check_timestep dt s)) = Inr k \<and>
         0 < k \<and> 2 \<le> length z \<and> 0 < dx \<and> 0 \<le> n
           \<longrightarrow> fst (stream_power_erosion z dx A total_time dt U K m n) = Raised ValueError z))"
proof -
  have a: "fst (stream_power_erosion z dx A total_time dt U K m n) = Raised e z' \<longrightarrow> z' = z"
    using spe_Raised_unmutated by blast
  have b: "final_profile (fst (stream_power_erosion z dx A total_time dt U K m n)) = Some z'
           \<longrightarrow> z' = z" if "length A \<noteq> length z" and "length A \<noteq> 2"
    using spe_mismatch_unmutated [OF that] by blast
  have c: "fst (stream_power_erosion z dx A total_time dt U K m n) = Raised ValueError z"
    if len: "length A \<noteq> length z" "length A \<noteq> 2"
      and v: "velocity K A m = Ok v" and s: "stable_timestep dx v = Inr s"
      and k: "nt_iterations total_time (fst (check_timestep dt s)) = Inr k"
      and pos: "0 < k" "2 \<le> length z" "0 < dx" "0 \<le> n"
  proof -
    have lv: "length v = length A" using v by (rule velocity_nth(1))
    from slope_term_Ok [OF pos(3,4)] obtain sl where sl: "slope_term z dx n = Ok sl" by blast
    have m1: "length v - 1 \<noteq> length z - 1" using lv len(1) pos(2) by linarith
    have m2: "length v - 1 \<noteq> 1" using lv len(2) by simp
    have st: "step v dx (fst (check_timestep dt s)) U n z = Raise ValueError"
      using m1 m2 sl by (rule step_mismatch_Raise)
    from pos(1) obtain j where j: "nat k = Suc j" by (cases "nat k") auto
    from spe_unfold [OF v s k, of z U n] st show ?thesis by (simp add: j)
  qed
  from a b c show ?thesis by blast
qed

theorem mismatched_lengths_leave_profile_witness:
  "stream_power_erosion [5, 2, 1] 4 [1, 1, 1, 1] 7 50 1 1 1 1
     = (Raised ValueError [5, 2, 1], [StabilityWarning 3])"
proof -
  have h1: "velocity 1 [1, 1, 1, 1] 1 = Ok [- 1, - 1, - 1, - 1]"
    by (simp add: velocity_def pow_finite_def np_power_def)
  have h2: "stable_timestep 4 [- 1, - 1, - 1, - 1] = Inr 3"
    by (simp add: stable_timestep_def max_abs_def py_int_def)
  have h3: "nt_iterations 7 (fst (check_timestep 50 3)) = Inr 2"
    by (simp add: nt_iterations_def check_timestep_def py_int_def)
  have out: "snd (stream_power_erosion [5, 2, 1] 4 [1, 1, 1, 1] 7 50 1 1 1 1) = [StabilityWarning 3]"
    using spe_unfold [OF h1 h2 h3, of "[5, 2, 1]" 1 1] by (simp add: check_timestep_def)
  from mismatched_lengths_leave_profile [of "[5, 2, 1]" 4 "[1, 1, 1, 1]" 7 50 1 1 1 1 _ _
      "[- 1, - 1, - 1, - 1]" 3 2] h1 h2 h3
  have "fst (stream_power_erosion [5, 2, 1] 4 [1, 1, 1, 1] 7 50 1 1 1 1) = Raised ValueError [5, 2, 1]"
    by simp
  with out show ?thesis by (simp add: prod_eq_iff)
qed

text \<open>
  C9. The erosion increment at a non-outlet node \<open>i\<close> depends on the two elevations only
  through \<open>|z[i+1] - z[i]|\<close>: on two profiles whose differences at \<open>i\<close> are each other's
  negation, the increments at \<open>i\<close> are equal.
\<close>

theorem erosion_ignores_slope_sign:
  assumes "length w = length z" and "Suc i < length z"
    and "w ! Suc i - w ! i = - (z ! Suc i - z ! i)"
    and "erosion_rhs v dx dt n z = Ok ez" and "erosion_rhs v dx dt n w = Ok ew"
  shows "ew ! i = ez ! i"
proof -
  from assms(4) obtain sz where sz: "slope_term z dx n = Ok sz"
    and bz: "broadcast_mult (map (\<lambda>x. x * dt) (tl v)) sz = Inr ez"
    by (auto simp: erosion_rhs_def split: comp.splits sum.splits)
  from assms(5) obtain sw where sw: "slope_term w dx n = Ok sw"
    and bw: "broadcast_mult (map (\<lambda>x. x * dt) (tl v)) sw = Inr ew"
    by (auto simp: erosion_rhs_def split: comp.splits sum.splits)
  have lz: "length sz = length z - 1" using sz by (rule slope_term_length)
  have lw: "length sw = length z - 1" using slope_term_length [OF sw] assms(1) by simp
  have ab: "\<bar>w ! Suc i - w ! i\<bar> = \<bar>z ! Suc i - z ! i\<bar>" using assms(3) by simp
  have "sw ! i = np_power (\<bar>w ! Suc i - w ! i\<bar> / dx) n"
    using sw assms(1,2) by (intro slope_term_nth) simp_all
  moreover have "sz ! i = np_power (\<bar>z ! Suc i - z ! i\<bar> / dx) n"
    using sz assms(2) by (rule slope_term_nth)
  ultimately have eq: "sw ! i = sz ! i" using ab by simp
  have i: "i < length z - 1" using assms(2) by simp
  show ?thesis
  proof (cases "length (tl v) = length z - 1")
    case True
    with bz bw lz lw i eq show ?thesis
      by (auto simp: broadcast_mult_def)
  next
    case False
    note ne = this
    show ?thesis
    proof (cases "length (tl v) = 1")
      case True
      with bz bw lz lw i eq ne show ?thesis
        by (auto simp: broadcast_mult_def)
    next
      case False
      with bz bw lz lw i eq ne have "length z - 1 = 1"
        by (auto simp: broadcast_mult_def split: if_splits)
      with i have i0: "i = 0" by simp
      have "sw \<noteq> []" and "sz \<noteq> []" using lz lw i by auto
      then have "hd sw = hd sz" using eq i0 by (simp add: hd_conv_nth)
      with bz bw lz lw ne False show ?thesis
        by (auto simp: broadcast_mult_def split: if_splits)
    qed
  qed
qed

theorem erosion_ignores_slope_sign_witness:
  "erosion_rhs [- 1, - 4, - 9] 2 1 1 [3, 1, 0] = Ok [- 4, - 9 / 2] \<and>
   erosion_rhs [- 1, - 4, - 9] 2 1 1 [1, 3, 0] = Ok [- 4, - 27 / 2] \<and>
   [- 4, - 27 / 2 :: real] ! 0 = [- 4, - 9 / 2] ! 0"
proof -
  have h1: "length [1, 3, 0 :: real] = length [3, 1, 0 :: real]" by simp
  have h2: "Suc 0 < length [3, 1, 0 :: real]" by simp
  have h3: "[1, 3, 0 :: real] ! Suc 0 - [1, 3, 0] ! 0 = - ([3, 1, 0] ! Suc 0 - [3, 1, 0] ! 0)" by simp
  have h4: "erosion_rhs [- 1, - 4, - 9] 2 1 1 [3, 1, 0] = Ok [- 4, - 9 / 2]"
    by (simp add: spe_defs)
  have h5: "erosion_rhs [- 1, - 4, - 9] 2 1 1 [1, 3, 0] = Ok [- 4, - 27 / 2]"
    by (simp add: spe_defs)
  from erosion_ignores_slope_sign [OF h1 h2 h3 h4 h5] h4 h5 show ?thesis by simp
qed

text \<open>
  C10. On a profile with a single node, whenever the call returns, it returns the profile
  unchanged, and each step of the loop is the identity on it.
\<close>

theorem single_node_profile_unchanged:
  assumes "length z = 1"
  shows "(fst (stream_power_erosion z dx A total_time dt U K m n) = Returned z' \<longrightarrow> z' = z) \<and>
         (step v dx dt' U n z = Ok z1 \<longrightarrow> z1 = z)"
proof -
  have eq: "w = z" if "length w = length z" and "drop (length z - 1) w = drop (length z - 1) z" for w
    using that assms by simp
  have a: "z' = z" if "fst (stream_power_erosion z dx A total_time dt U K m n) = Returned z'"
  proof -
    have "final_profile (fst (stream_power_erosion z dx A total_time dt U K m n)) = Some z'"
      using that by simp
    from spe_profile [OF this] eq show ?thesis by blast
  qed
  have b: "z1 = z" if "step v dx dt' U n z = Ok z1"
    using step_length [OF that] step_outlet [OF that] eq by blast
  from a b show ?thesis by blast
qed

theorem single_node_profile_unchanged_witness:
  "stream_power_erosion [7] 4 [1] 7 50 1 1 1 1 = (Returned [7], [StabilityWarning 3]) \<and>
   step [- 1] 4 3 1 1 [7] = Ok [7]"
proof -
  have l: "length [7::real] = 1" by simp
  have r: "\<exists>z'. stream_power_erosion [7] 4 [1] 7 50 1 1 1 1 = (Returned z', [StabilityWarning 3])"
    by (simp add: spe_defs numeral_2_eq_2)
  have s: "\<exists>z1. step [- 1] 4 3 1 1 [7] = Ok z1"
    by (simp add: spe_defs)
  from r obtain z' where r': "stream_power_erosion [7] 4 [1] 7 50 1 1 1 1 = (Returned z', [StabilityWarning 3])"
    by blast
  from s obtain z1 where s': "step [- 1] 4 3 1 1 [7] = Ok z1" by blast
  from single_node_profile_unchanged [OF l, of 4 "[1]" 7 50 1 1 1 1 z' "[- 1]" 3 z1] r' s'
  show ?thesis by simp
qed

end
